theory Spec2Isabelle
  imports Main "HOL-Library.Sublist" "HOL-Library.Word"
begin

section \<open>The configuration (main.go, lines 20-31)\<close>

text \<open>
  Go strings are byte sequences, and so is \<open>string\<close>.  The Go \<open>int\<close> of
  \<open>IntervalMinutes\<close> is taken at 64 bits.
\<close>

record Project =
  Name :: string
  Path :: string
  Repo :: string
  Type :: string
  BuildCommand :: string

record Config =
  IntervalMinutes :: "64 word"
  Projects :: "Project list"

section \<open>The host: file system, external processes, sleeping\<close>

text \<open>
  What \<open>os.Stat\<close> returns:
  \<^item> \<open>StatOk\<close>: no error;
  \<^item> \<open>NotExist\<close>: the error \<open>ENOENT\<close>, for which \<open>os.IsNotExist\<close> holds;
  \<^item> \<open>NotDir\<close>: the error \<open>ENOTDIR\<close>, when a component of the path is not a
    directory; the path does not exist then either, but \<open>os.IsNotExist\<close> does not hold;
  \<^item> \<open>StatOther\<close>: any other error (say, permission denied).
\<close>

datatype stat_result = StatOk | NotExist | NotDir | StatOther

text \<open>The path names nothing in the file system.\<close>

definition path_absent :: "stat_result \<Rightarrow> bool" where
  "path_absent r = (r = NotExist \<or> r = NotDir)"

text \<open>
  The host is a state of type \<open>'w\<close> and the operations the program calls on it.
  \<open>os_exec argv dir\<close> runs a process to its end and gives what it wrote to
  its standard output and error, and the \<open>error\<close> of Go (\<open>None\<close> is \<open>nil\<close>,
  \<open>Some msg\<close> an error whose text is \<open>msg\<close>).  An unset \<open>cmd.Dir\<close> is the empty
  string, as in Go.  \<open>GOOS\<close> is \<open>runtime.GOOS\<close>.
\<close>

record 'w host =
  GOOS :: string
  os_stat :: "string \<Rightarrow> 'w \<Rightarrow> stat_result \<times> 'w"
  os_exec :: "string list \<Rightarrow> string \<Rightarrow> 'w \<Rightarrow> (string \<times> string option) \<times> 'w"
  os_sleep :: "64 word \<Rightarrow> 'w \<Rightarrow> 'w"

text \<open>
  What the program does to the outside is kept in a trace, in order:
  \<^item> \<open>Out t\<close>: the program itself writes \<open>t\<close> to its standard output;
  \<^item> \<open>Stat path\<close>: a call of \<open>os.Stat\<close>;
  \<^item> \<open>Spawn argv dir m\<close>: the program calls for a process with these arguments and this
    \<open>cmd.Dir\<close> (whether it starts is in the answer of the host); with \<open>Captured\<close> its
    output comes back to the program (\<open>CombinedOutput\<close>), with \<open>Inherited\<close> the child
    writes to the standard output and error of the program (\<open>Run\<close>);
  \<^item> \<open>ChildOut t\<close>: what such a child wrote there;
  \<^item> \<open>Sleep d\<close>: \<open>time.Sleep d\<close>, with \<open>d\<close> in nanoseconds.
\<close>

datatype streams = Captured | Inherited

datatype event =
    Out string
  | Stat string
  | Spawn "string list" string streams
  | ChildOut string
  | Sleep "64 word"

type_synonym 'w st = "'w \<times> event list"

definition nl :: string where
  "nl = [CHR 0x0A]"

text \<open>The arrow U+2192 of the progress lines, in UTF-8.\<close>

definition arrow :: string where
  "arrow = [CHR 0xE2, CHR 0x86, CHR 0x92]"

text \<open>\<open>fmt.Print\<close> of one string.\<close>

definition Print :: "string \<Rightarrow> 'w st \<Rightarrow> 'w st" where
  "Print t s = (fst s, snd s @ [Out t])"

text \<open>\<open>fmt.Println\<close> of two strings: a space between the operands, a newline after.\<close>

definition Println :: "string \<Rightarrow> string \<Rightarrow> 'w st \<Rightarrow> 'w st" where
  "Println a b s = Print (a @ '' '' @ b @ nl) s"

definition os_Stat :: "'w host \<Rightarrow> string \<Rightarrow> 'w st \<Rightarrow> stat_result \<times> 'w st" where
  "os_Stat h path s =
     (case os_stat h path (fst s) of
        (r, w') \<Rightarrow> (r, (w', snd s @ [Stat path])))"

text \<open>\<open>exec.Command(argv...).CombinedOutput()\<close>, \<open>cmd.Dir\<close> unset.\<close>

definition CombinedOutput ::
  "'w host \<Rightarrow> string list \<Rightarrow> 'w st \<Rightarrow> (string \<times> string option) \<times> 'w st" where
  "CombinedOutput h argv s =
     (case os_exec h argv [] (fst s) of
        ((output, err), w') \<Rightarrow> ((output, err), (w', snd s @ [Spawn argv [] Captured])))"

text \<open>
  \<open>cmd.Run()\<close> of \<open>exec.Command(argv...)\<close> with \<open>cmd.Dir = dir\<close>,
  \<open>cmd.Stdout = os.Stdout\<close> and \<open>cmd.Stderr = os.Stderr\<close>.
\<close>

definition Run :: "'w host \<Rightarrow> string list \<Rightarrow> string \<Rightarrow> 'w st \<Rightarrow> string option \<times> 'w st" where
  "Run h argv dir s =
     (case os_exec h argv dir (fst s) of
        ((output, err), w') \<Rightarrow>
          (err, (w', snd s @ [Spawn argv dir Inherited, ChildOut output])))"

definition time_Sleep :: "'w host \<Rightarrow> 64 word \<Rightarrow> 'w st \<Rightarrow> 'w st" where
  "time_Sleep h d s = (os_sleep h d (fst s), snd s @ [Sleep d])"

text \<open>\<open>strings.Contains s substr\<close>.\<close>

fun Contains :: "string \<Rightarrow> string \<Rightarrow> bool" where
  "Contains [] substr = (substr = [])"
| "Contains (c # cs) substr = (prefix substr (c # cs) \<or> Contains cs substr)"

section \<open>The program\<close>

subsection \<open>\<open>runBuildCommand\<close> (lines 223-234)\<close>

definition shell_argv :: "'w host \<Rightarrow> string \<Rightarrow> string list" where
  "shell_argv h command =
     (if GOOS h = ''windows'' then [''cmd'', ''/C'', command]
      else [''bash'', ''-c'', command])"

definition runBuildCommand ::
  "'w host \<Rightarrow> string \<Rightarrow> string \<Rightarrow> 'w st \<Rightarrow> string option \<times> 'w st" where
  "runBuildCommand h command dir s = Run h (shell_argv h command) dir s"

subsection \<open>\<open>updateProject\<close> (lines 236-275)\<close>

text \<open>The build step, lines 256-259; the error of \<open>runBuildCommand\<close> is dropped.\<close>

definition build_step :: "'w host \<Rightarrow> Project \<Rightarrow> 'w st \<Rightarrow> 'w st" where
  "build_step h p s =
     (if BuildCommand p \<noteq> []
      then snd (runBuildCommand h (BuildCommand p) (Path p)
                  (Println (arrow @ '' Running build command for'') (Name p) s))
      else s)"

text \<open>The \<open>switch p.Type\<close>, lines 261-274; the error of \<open>cmd.Run()\<close> is dropped.\<close>

definition dispatch :: "'w host \<Rightarrow> Project \<Rightarrow> 'w st \<Rightarrow> 'w st" where
  "dispatch h p s =
     (if Type p = ''pm2''
      then snd (Run h [''pm2'', ''restart'', Name p] []
                  (Println (arrow @ '' Restarting PM2 process:'') (Name p) s))
      else if Type p = ''docker'' then s
      else if Type p = ''static'' then s
      else Println ''Unknown type:'' (Type p) s)"

definition git_pull_argv :: "Project \<Rightarrow> string list" where
  "git_pull_argv p = [''git'', ''-C'', Path p, ''pull'']"

definition updateProject :: "'w host \<Rightarrow> Project \<Rightarrow> 'w st \<Rightarrow> 'w st" where
  "updateProject h p s0 =
     (case os_Stat h (Path p) s0 of
        (r, s1) \<Rightarrow>
          if r = NotExist then Println ''Path not found:'' (Path p) s1
          else
            (case CombinedOutput h (git_pull_argv p)
                    (Println (arrow @ '' Pulling latest changes for'') (Name p) s1) of
               ((output, err), s2) \<Rightarrow>
                 (case err of
                    Some e \<Rightarrow> Println ''Git pull failed:'' e s2
                  | None \<Rightarrow>
                      if Contains output ''Already up to date.''
                      then Println ''No new commits for'' (Name p) (Print output s2)
                      else dispatch h p (build_step h p (Print output s2)))))"

subsection \<open>The \<open>build\<close> command (lines 175-202)\<close>

text \<open>
  The loop of lines 183-199 with its \<open>return\<close>s, and line 200 after it.  The
  configuration is the one \<open>loadConfig\<close> returned; \<open>projectName\<close> is \<open>args[0]\<close>.
\<close>

fun buildCmd_loop :: "'w host \<Rightarrow> string \<Rightarrow> Project list \<Rightarrow> 'w st \<Rightarrow> 'w st" where
  "buildCmd_loop h projectName [] s =
     Print (''Project '' @ projectName @ '' not found in configuration'' @ nl) s"
| "buildCmd_loop h projectName (p # ps) s =
     (if Name p = projectName
      then
        (if BuildCommand p = []
         then Print (''No build command configured for project '' @ projectName @ nl) s
         else
           (case runBuildCommand h (BuildCommand p) (Path p)
                   (Print (''Building project '' @ projectName @ ''...'' @ nl) s) of
              (err, s') \<Rightarrow>
                (case err of
                   Some e \<Rightarrow> Print (''Build failed for '' @ projectName @ '': '' @ e @ nl) s'
                 | None \<Rightarrow> Print (''Build completed for '' @ projectName @ nl) s')))
      else buildCmd_loop h projectName ps s)"

definition buildCmd :: "'w host \<Rightarrow> Config \<Rightarrow> string \<Rightarrow> 'w st \<Rightarrow> 'w st" where
  "buildCmd h config projectName s = buildCmd_loop h projectName (Projects config) s"

subsection \<open>The \<open>watch\<close> command (lines 158-173)\<close>

text \<open>Here too the configuration is the one \<open>loadConfig\<close> returned.\<close>

text \<open>The verb \<open>%d\<close> of \<open>fmt.Printf\<close>: a signed decimal numeral.\<close>

function fmt_nat :: "nat \<Rightarrow> string" where
  "fmt_nat n =
     (if n < 10 then [char_of (48 + n)]
      else fmt_nat (n div 10) @ [char_of (48 + n mod 10)])"
  by pat_completeness auto
termination
  by (relation "measure (\<lambda>n. n)") auto

definition fmt_d :: "int \<Rightarrow> string" where
  "fmt_d i = (if i < 0 then ''-'' @ fmt_nat (nat (- i)) else fmt_nat (nat i))"

text \<open>One pass, the inner loop of lines 166-169.\<close>

fun pass :: "'w host \<Rightarrow> Project list \<Rightarrow> 'w st \<Rightarrow> 'w st" where
  "pass h [] s = s"
| "pass h (p # ps) s = pass h ps (updateProject h p (Println ''Checking'' (Name p) s))"

text \<open>
  \<open>time.Duration(config.IntervalMinutes) * time.Minute\<close>: a product of 64-bit
  integers, in nanoseconds.
\<close>

definition interval_duration :: "Config \<Rightarrow> 64 word" where
  "interval_duration config = IntervalMinutes config * 60000000000"

text \<open>The body of the outer \<open>for\<close>, lines 166-170.\<close>

definition watch_body :: "'w host \<Rightarrow> Config \<Rightarrow> 'w st \<Rightarrow> 'w st" where
  "watch_body h config s =
     time_Sleep h (interval_duration config) (pass h (Projects config) s)"

text \<open>
  The outer \<open>for\<close> has no exit.  \<open>watch_loop h config n s\<close> is the state after
  its first \<open>n\<close> rounds.
\<close>

primrec watch_loop :: "'w host \<Rightarrow> Config \<Rightarrow> nat \<Rightarrow> 'w st \<Rightarrow> 'w st" where
  "watch_loop h config 0 s = s"
| "watch_loop h config (Suc n) s = watch_loop h config n (watch_body h config s)"

definition watchCmd :: "'w host \<Rightarrow> Config \<Rightarrow> nat \<Rightarrow> 'w st \<Rightarrow> 'w st" where
  "watchCmd h config n s =
     watch_loop h config n
       (Print (''Running updatectl every '' @ fmt_d (sint (IntervalMinutes config))
               @ '' minutes...'' @ nl) s)"

section \<open>Reading a trace\<close>

text \<open>The events a run added to the trace it started from.\<close>

definition added :: "event list \<Rightarrow> 'w st \<Rightarrow> event list" where
  "added tr s = drop (length tr) (snd s)"

text \<open>The processes started, in order.\<close>

fun spawns :: "event list \<Rightarrow> (string list \<times> string \<times> streams) list" where
  "spawns [] = []"
| "spawns (Spawn argv dir m # es) = (argv, dir, m) # spawns es"
| "spawns (e # es) = spawns es"

text \<open>The texts the program itself wrote, in order.\<close>

fun outs :: "event list \<Rightarrow> string list" where
  "outs [] = []"
| "outs (Out t # es) = t # outs es"
| "outs (e # es) = outs es"

text \<open>The paths \<open>os.Stat\<close> was called on, in order.\<close>

fun stats :: "event list \<Rightarrow> string list" where
  "stats [] = []"
| "stats (Stat path # es) = path # stats es"
| "stats (e # es) = stats es"

text \<open>
  Whether \<open>t\<close> occurs in a text that reached the console, from the program or
  from a child that inherited its streams.
\<close>

fun mentions :: "string \<Rightarrow> event list \<Rightarrow> bool" where
  "mentions t [] = False"
| "mentions t (Out x # es) = (Contains x t \<or> mentions t es)"
| "mentions t (ChildOut x # es) = (Contains x t \<or> mentions t es)"
| "mentions t (e # es) = mentions t es"

subsection \<open>Time\<close>

text \<open>
  \<open>time.Sleep d\<close> returns at once when \<open>d\<close> is zero or negative, and
  takes \<open>d\<close> nanoseconds otherwise.  The time of every other event is given by
  a function \<open>cost\<close>.  \<open>elapsed cost tr\<close> is the time the trace \<open>tr\<close> took.
\<close>

definition sleep_ns :: "64 word \<Rightarrow> nat" where
  "sleep_ns d = (if sint d \<le> 0 then 0 else nat (sint d))"

fun event_time :: "(event \<Rightarrow> nat) \<Rightarrow> event \<Rightarrow> nat" where
  "event_time cost (Sleep d) = sleep_ns d"
| "event_time cost e = cost e"

definition elapsed :: "(event \<Rightarrow> nat) \<Rightarrow> event list \<Rightarrow> nat" where
  "elapsed cost tr = sum_list (map (event_time cost) tr)"

text \<open>
  The times at which round \<open>k\<close> of the outer loop (\<open>k = 0, 1, ...\<close>) starts its
  pass and finishes it, on a clock that shows \<open>elapsed cost (snd s)\<close> when the
  loop is entered in state \<open>s\<close>.
\<close>

definition pass_start ::
  "(event \<Rightarrow> nat) \<Rightarrow> 'w host \<Rightarrow> Config \<Rightarrow> 'w st \<Rightarrow> nat \<Rightarrow> nat" where
  "pass_start cost h config s k = elapsed cost (snd (watch_loop h config k s))"

definition pass_end ::
  "(event \<Rightarrow> nat) \<Rightarrow> 'w host \<Rightarrow> Config \<Rightarrow> 'w st \<Rightarrow> nat \<Rightarrow> nat" where
  "pass_end cost h config s k =
     elapsed cost (snd (pass h (Projects config) (watch_loop h config k s)))"

text \<open>A cost function: every process takes \<open>n\<close>, nothing else takes time.\<close>

fun spawn_cost :: "nat \<Rightarrow> event \<Rightarrow> nat" where
  "spawn_cost n (Spawn argv dir m) = n"
| "spawn_cost n e = 0"

section \<open>Sample hosts, projects and configurations\<close>

text \<open>
  Every path has the state \<open>sr\<close>; \<open>git\<close> answers \<open>pull\<close>, \<open>pm2\<close> answers
  \<open>restart\<close>, any other program \<open>build\<close>.  The state counts the processes run.
\<close>

definition demo_host ::
  "stat_result \<Rightarrow> string \<times> string option \<Rightarrow> string \<times> string option \<Rightarrow>
   string \<times> string option \<Rightarrow> nat host" where
  "demo_host sr pull build restart =
     \<lparr>GOOS = ''linux'',
      os_stat = (\<lambda>path w. (sr, w)),
      os_exec = (\<lambda>argv dir w.
         (if take 1 argv = [''git''] then pull
          else if take 1 argv = [''pm2''] then restart
          else build, Suc w)),
      os_sleep = (\<lambda>d w. w)\<rparr>"

definition web :: Project where
  "web = \<lparr>Name = ''web'', Path = ''/srv/site'', Repo = ''https://example.org/web.git'',
          Type = ''pm2'', BuildCommand = ''npm run build''\<rparr>"

definition docs :: Project where
  "docs = \<lparr>Name = ''docs'', Path = ''/srv/docs'', Repo = ''https://example.org/docs.git'',
           Type = ''static'', BuildCommand = ''''\<rparr>"

text \<open>Two entries with the name \<open>web\<close>.\<close>

definition dup_config :: Config where
  "dup_config = \<lparr>IntervalMinutes = 10,
                  Projects = [web, web\<lparr>Path := ''/srv/other'', BuildCommand := ''make two''\<rparr>]\<rparr>"

definition every_ten :: Config where
  "every_ten = \<lparr>IntervalMinutes = 10, Projects = [web]\<rparr>"

text \<open>The same host on Windows.\<close>

definition win_host ::
  "stat_result \<Rightarrow> string \<times> string option \<Rightarrow> string \<times> string option \<Rightarrow>
   string \<times> string option \<Rightarrow> nat host" where
  "win_host sr pull build restart = (demo_host sr pull build restart)\<lparr>GOOS := ''windows''\<rparr>"

text \<open>A project whose path lies under a regular file.\<close>

definition nested :: Project where
  "nested = \<lparr>Name = ''nested'', Path = ''/srv/site/index.html/app'',
             Repo = ''https://example.org/nested.git'', Type = ''static'', BuildCommand = ''''\<rparr>"

definition not_a_dir :: "string \<times> string option" where
  "not_a_dir = (''fatal: cannot change to /srv/site/index.html/app: Not a directory'' @ nl,
                Some ''exit status 128'')"

text \<open>Answers of a process: what it wrote, and its error.\<close>

definition changed :: "string \<times> string option" where
  "changed = (''Updating 1a2b3c4..5d6e7f8'' @ nl, None)"

definition up_to_date :: "string \<times> string option" where
  "up_to_date = (''Already up to date.'' @ nl, None)"

definition no_repo :: "string \<times> string option" where
  "no_repo = (''fatal: not a git repository'' @ nl, Some ''exit status 128'')"

definition quiet_ok :: "string \<times> string option" where
  "quiet_ok = ('''', None)"

definition quiet_fail :: "string \<times> string option" where
  "quiet_fail = ('''', Some ''exit status 1'')"

lemmas sample_defs = demo_host_def web_def docs_def changed_def up_to_date_def no_repo_def
  quiet_ok_def quiet_fail_def nl_def arrow_def git_pull_argv_def shell_argv_def

lemmas more_sample_defs = win_host_def nested_def not_a_dir_def

section \<open>Facts about the model\<close>

text \<open>\<open>Contains\<close> is the substring test.\<close>

lemma Contains_iff: "Contains s t \<longleftrightarrow> (\<exists>pre post. s = pre @ t @ post)"
proof (induction s)
  case Nil
  then show ?case by auto
next
  case (Cons c cs)
  show ?case
  proof
    assume "Contains (c # cs) t"
    then consider "prefix t (c # cs)" | "Contains cs t" by auto
    then show "\<exists>pre post. c # cs = pre @ t @ post"
    proof cases
      case 1
      then obtain post where "c # cs = t @ post" by (auto simp: prefix_def)
      then have "c # cs = [] @ t @ post" by simp
      then show ?thesis by blast
    next
      case 2
      with Cons.IH obtain pre post where "cs = pre @ t @ post" by blast
      then have "c # cs = (c # pre) @ t @ post" by simp
      then show ?thesis by blast
    qed
  next
    assume "\<exists>pre post. c # cs = pre @ t @ post"
    then obtain pre post where eq: "c # cs = pre @ t @ post" by blast
    show "Contains (c # cs) t"
    proof (cases pre)
      case Nil
      with eq have "prefix t (c # cs)" by (simp add: prefix_def)
      then show ?thesis by simp
    next
      case (Cons a pre')
      with eq have "cs = pre' @ t @ post" by simp
      with Cons.IH have "Contains cs t" by blast
      then show ?thesis by simp
    qed
  qed
qed

lemma spawns_append: "spawns (xs @ ys) = spawns xs @ spawns ys"
  by (induction xs rule: spawns.induct) auto

lemma outs_append: "outs (xs @ ys) = outs xs @ outs ys"
  by (induction xs rule: outs.induct) auto

lemma stats_append: "stats (xs @ ys) = stats xs @ stats ys"
  by (induction xs rule: stats.induct) auto

lemma elapsed_append: "elapsed cost (xs @ ys) = elapsed cost xs + elapsed cost ys"
  by (simp add: elapsed_def)

text \<open>The build step and the switch, on the trace.\<close>

lemma build_step_eq:
  "build_step h p (w, tr) =
     (if BuildCommand p \<noteq> []
      then (case os_exec h (shell_argv h (BuildCommand p)) (Path p) w of
              ((output, err), w') \<Rightarrow>
                (w', tr @ [Out (arrow @ '' Running build command for '' @ Name p @ nl),
                           Spawn (shell_argv h (BuildCommand p)) (Path p) Inherited,
                           ChildOut output]))
      else (w, tr))"
  by (simp add: build_step_def runBuildCommand_def Run_def Println_def Print_def
           split: prod.splits)

lemma dispatch_eq:
  "dispatch h p (w, tr) =
     (if Type p = ''pm2''
      then (case os_exec h [''pm2'', ''restart'', Name p] [] w of
              ((output, err), w') \<Rightarrow>
                (w', tr @ [Out (arrow @ '' Restarting PM2 process: '' @ Name p @ nl),
                           Spawn [''pm2'', ''restart'', Name p] [] Inherited,
                           ChildOut output]))
      else if Type p = ''docker'' \<or> Type p = ''static'' then (w, tr)
      else (w, tr @ [Out (''Unknown type: '' @ Type p @ nl)]))"
  by (simp add: dispatch_def Run_def Println_def Print_def split: prod.splits)

text \<open>A run whose path check passes and whose pull returns no error.\<close>

lemma pull_ok:
  assumes "os_stat h (Path p) w = (r, w1)" and "r \<noteq> NotExist"
    and "os_exec h (git_pull_argv p) [] w1 = ((output, None), w2)"
  shows "updateProject h p (w, tr) =
           (if Contains output ''Already up to date.''
            then (w2, tr @ [Stat (Path p),
                            Out (arrow @ '' Pulling latest changes for '' @ Name p @ nl),
                            Spawn (git_pull_argv p) [] Captured,
                            Out output,
                            Out (''No new commits for '' @ Name p @ nl)])
            else dispatch h p (build_step h p
                   (w2, tr @ [Stat (Path p),
                              Out (arrow @ '' Pulling latest changes for '' @ Name p @ nl),
                              Spawn (git_pull_argv p) [] Captured,
                              Out output])))"
  using assms
  by (simp add: updateProject_def os_Stat_def CombinedOutput_def Println_def Print_def)

text \<open>The processes of the build step and the switch.\<close>

lemma changed_spawns:
  "spawns (added tr (dispatch h p (build_step h p (w, tr @ pre)))) =
     spawns pre
     @ (if BuildCommand p = [] then []
        else [(shell_argv h (BuildCommand p), Path p, Inherited)])
     @ (if Type p = ''pm2'' then [([''pm2'', ''restart'', Name p], [], Inherited)] else [])"
  by (simp add: build_step_eq dispatch_eq added_def spawns_append split: prod.splits)

text \<open>A run only adds to the trace, so \<open>added\<close> gives what it did.\<close>

lemma build_step_extends: "\<exists>xs. snd (build_step h p (w, tr)) = tr @ xs"
  by (simp add: build_step_eq split: prod.splits)

lemma dispatch_extends: "\<exists>xs. snd (dispatch h p (w, tr)) = tr @ xs"
  by (simp add: dispatch_eq split: prod.splits)

lemma updateProject_extends: "\<exists>xs. snd (updateProject h p (w, tr)) = tr @ xs"
proof (cases "os_stat h (Path p) w")
  case stat: (Pair r w1)
  show ?thesis
  proof (cases "r = NotExist")
    case True
    with stat show ?thesis
      by (simp add: updateProject_def os_Stat_def Println_def Print_def)
  next
    case exists: False
    show ?thesis
    proof (cases "os_exec h (git_pull_argv p) [] w1")
      case (Pair res w2)
      obtain pulled err where res: "res = (pulled, err)" by (cases res)
      show ?thesis
      proof (cases err)
        case (Some e)
        with stat exists Pair res show ?thesis
          by (simp add: updateProject_def os_Stat_def CombinedOutput_def Println_def Print_def)
      next
        case None
        let ?pre = "[Stat (Path p),
                     Out (arrow @ '' Pulling latest changes for '' @ Name p @ nl),
                     Spawn (git_pull_argv p) [] Captured,
                     Out pulled]"
        show ?thesis
        proof (cases "Contains pulled ''Already up to date.''")
          case True
          with stat exists Pair res None show ?thesis
            by (simp add: pull_ok)
        next
          case False
          with stat exists Pair res None
          have run: "updateProject h p (w, tr) =
                       dispatch h p (build_step h p (w2, tr @ ?pre))"
            by (simp add: pull_ok)
          obtain w3 tr3 where b: "build_step h p (w2, tr @ ?pre) = (w3, tr3)"
            by (cases "build_step h p (w2, tr @ ?pre)")
          from build_step_extends [of h p w2 "tr @ ?pre"] b
          obtain xs where xs: "tr3 = (tr @ ?pre) @ xs" by auto
          from dispatch_extends [of h p w3 tr3]
          obtain ys where "snd (dispatch h p (w3, tr3)) = tr3 @ ys" by auto
          with xs have "snd (dispatch h p (w3, tr3)) = tr @ (?pre @ xs @ ys)" by simp
          with run b show ?thesis by metis
        qed
      qed
    qed
  qed
qed

text \<open>Every event of a run of \<open>updateProject\<close>, in order.\<close>

lemma updateProject_events:
  "added tr (updateProject h p (w, tr)) =
     (case os_stat h (Path p) w of
        (r, w1) \<Rightarrow>
          if r = NotExist
          then [Stat (Path p), Out (''Path not found: '' @ Path p @ nl)]
          else [Stat (Path p),
                Out (arrow @ '' Pulling latest changes for '' @ Name p @ nl),
                Spawn [''git'', ''-C'', Path p, ''pull''] [] Captured] @
            (case os_exec h [''git'', ''-C'', Path p, ''pull''] [] w1 of
               ((output, err), w2) \<Rightarrow>
                 (case err of
                    Some e \<Rightarrow> [Out (''Git pull failed: '' @ e @ nl)]
                  | None \<Rightarrow>
                      Out output #
                      (if Contains output ''Already up to date.''
                       then [Out (''No new commits for '' @ Name p @ nl)]
                       else
                         (case (if BuildCommand p = [] then ([], w2)
                                else (case os_exec h
                                             (if GOOS h = ''windows''
                                              then [''cmd'', ''/C'', BuildCommand p]
                                              else [''bash'', ''-c'', BuildCommand p])
                                             (Path p) w2 of
                                        ((build_output, build_err), w3) \<Rightarrow>
                                          ([Out (arrow @ '' Running build command for ''
                                                 @ Name p @ nl),
                                            Spawn (if GOOS h = ''windows''
                                                   then [''cmd'', ''/C'', BuildCommand p]
                                                   else [''bash'', ''-c'', BuildCommand p])
                                                  (Path p) Inherited,
                                            ChildOut build_output], w3))) of
                            (build_events, w3) \<Rightarrow>
                              build_events @
                              (if Type p = ''pm2''
                               then (case os_exec h [''pm2'', ''restart'', Name p] [] w3 of
                                       ((restart_output, restart_err), w4) \<Rightarrow>
                                         [Out (arrow @ '' Restarting PM2 process: ''
                                               @ Name p @ nl),
                                          Spawn [''pm2'', ''restart'', Name p] [] Inherited,
                                          ChildOut restart_output])
                               else if Type p = ''docker'' \<or> Type p = ''static'' then []
                               else [Out (''Unknown type: '' @ Type p @ nl)]))))))"
proof (cases "os_stat h (Path p) w")
  case stat: (Pair r w1)
  show ?thesis
  proof (cases "r = NotExist")
    case True
    with stat show ?thesis
      by (simp add: updateProject_def os_Stat_def Println_def Print_def added_def)
  next
    case exists: False
    show ?thesis
    proof (cases "os_exec h (git_pull_argv p) [] w1")
      case (Pair res w2)
      obtain pulled err where res: "res = (pulled, err)" by (cases res)
      from Pair res
      have git: "os_exec h [''git'', ''-C'', Path p, ''pull''] [] w1 = ((pulled, err), w2)"
        by (simp add: git_pull_argv_def)
      show ?thesis
      proof (cases err)
        case (Some e)
        with stat exists Pair res git show ?thesis
          by (simp add: updateProject_def os_Stat_def CombinedOutput_def Println_def Print_def
                added_def git_pull_argv_def)
      next
        case None
        with stat exists Pair res
        have run: "updateProject h p (w, tr) =
           (if Contains pulled ''Already up to date.''
            then (w2, tr @ [Stat (Path p),
                            Out (arrow @ '' Pulling latest changes for '' @ Name p @ nl),
                            Spawn (git_pull_argv p) [] Captured,
                            Out pulled,
                            Out (''No new commits for '' @ Name p @ nl)])
            else dispatch h p (build_step h p
                   (w2, tr @ [Stat (Path p),
                              Out (arrow @ '' Pulling latest changes for '' @ Name p @ nl),
                              Spawn (git_pull_argv p) [] Captured,
                              Out pulled])))"
          by (simp add: pull_ok)
        from stat exists git None show ?thesis
          by (simp add: run build_step_eq dispatch_eq added_def git_pull_argv_def shell_argv_def
                split: prod.splits)
      qed
    qed
  qed
qed

text \<open>The loop of the \<open>build\<close> command stops at the first entry with the name.\<close>

lemma buildCmd_loop_skip:
  "\<forall>q \<in> set xs. Name q \<noteq> n \<Longrightarrow> buildCmd_loop h n (xs @ ys) s = buildCmd_loop h n ys s"
  by (induction xs) auto

lemma buildCmd_loop_find:
  "buildCmd_loop h n ps s =
     (case find (\<lambda>p. Name p = n) ps of
        None \<Rightarrow> buildCmd_loop h n [] s
      | Some p \<Rightarrow> buildCmd_loop h n [p] s)"
  by (induction ps) auto

lemma buildCmd_loop_one:
  "Name p = n \<Longrightarrow> buildCmd_loop h n [p] (w, tr) =
     (if BuildCommand p = []
      then (w, tr @ [Out (''No build command configured for project '' @ n @ nl)])
      else (case os_exec h (shell_argv h (BuildCommand p)) (Path p) w of
              ((output, err), w') \<Rightarrow>
                (w', tr @ [Out (''Building project '' @ n @ ''...'' @ nl),
                           Spawn (shell_argv h (BuildCommand p)) (Path p) Inherited,
                           ChildOut output,
                           Out (case err of
                                  Some e \<Rightarrow> ''Build failed for '' @ n @ '': '' @ e @ nl
                                | None \<Rightarrow> ''Build completed for '' @ n @ nl)])))"
  by (simp add: runBuildCommand_def Run_def Print_def split: prod.splits option.splits)

lemma pass_append: "pass h (xs @ ys) s = pass h ys (pass h xs s)"
  by (induction xs arbitrary: s) auto

text \<open>The state after \<open>k + 1\<close> rounds is one round after the state after \<open>k\<close>.\<close>

lemma watch_loop_Suc_right:
  "watch_loop h config (Suc k) s = watch_body h config (watch_loop h config k s)"
  by (induction k arbitrary: s) simp_all

text \<open>Up to 153722867 minutes the product of line 170 does not wrap.\<close>

lemma interval_in_range:
  assumes "0 \<le> sint m" and "sint m \<le> 153722867"
  shows "sint (m * 60000000000 :: 64 word) = sint m * 60000000000"
proof -
  have "sint (m * 60000000000 :: 64 word) =
          signed_take_bit 63 (sint m * sint (60000000000 :: 64 word))"
    by (simp add: sint_word_ariths)
  also have "sint (60000000000 :: 64 word) = 60000000000"
    by simp
  also have "signed_take_bit 63 (sint m * 60000000000) = sint m * 60000000000"
    using assms by (intro signed_take_bit_int_eq_self) auto
  finally show ?thesis .
qed

section \<open>The claims\<close>

subsection \<open>C1: a failed build is not recorded\<close>

text \<open>
  C1.  The code and the claim differ.  A changed project is dispatched after its
  build step whatever \<open>runBuildCommand\<close> returns (see C4), but \<open>updateProject\<close> drops
  the error it returns.  On a host where \<open>npm run build\<close> fails and writes nothing,
  the run of \<open>updateProject\<close> leaves the trace below, it is the trace of the same run
  with a build that succeeds, and nothing in it tells of the failure.  The
  \<open>build\<close> command, on the same host and project, does write
  \<open>Build failed for web: exit status 1\<close>.
\<close>

theorem C1_build_failure_dropped:
  "fst (os_exec (demo_host StatOk changed quiet_fail quiet_ok)
          [''bash'', ''-c'', ''npm run build''] ''/srv/site'' 1) = ('''', Some ''exit status 1'')
   \<and> snd (updateProject (demo_host StatOk changed quiet_fail quiet_ok) web (0, [])) =
       [Stat ''/srv/site'',
        Out (arrow @ '' Pulling latest changes for web'' @ nl),
        Spawn [''git'', ''-C'', ''/srv/site'', ''pull''] [] Captured,
        Out (''Updating 1a2b3c4..5d6e7f8'' @ nl),
        Out (arrow @ '' Running build command for web'' @ nl),
        Spawn [''bash'', ''-c'', ''npm run build''] ''/srv/site'' Inherited,
        ChildOut '''',
        Out (arrow @ '' Restarting PM2 process: web'' @ nl),
        Spawn [''pm2'', ''restart'', ''web''] [] Inherited,
        ChildOut '''']
   \<and> snd (updateProject (demo_host StatOk changed quiet_fail quiet_ok) web (0, [])) =
       snd (updateProject (demo_host StatOk changed quiet_ok quiet_ok) web (0, []))
   \<and> snd (buildCmd (demo_host StatOk changed quiet_fail quiet_ok) every_ten ''web'' (0, [])) =
       [Out (''Building project web...'' @ nl),
        Spawn [''bash'', ''-c'', ''npm run build''] ''/srv/site'' Inherited,
        ChildOut '''',
        Out (''Build failed for web: exit status 1'' @ nl)]"
  by (simp add: sample_defs every_ten_def updateProject_def os_Stat_def CombinedOutput_def
        build_step_def dispatch_def runBuildCommand_def Run_def Println_def Print_def
        buildCmd_def)

subsection \<open>C2: change detection\<close>

text \<open>
  C2.  In a run whose path check passes and whose pull returns no error, the output of
  the pull decides.  If it contains \<open>Already up to date.\<close>, the run echoes
  the output, writes \<open>No new commits for <name>\<close> and returns: git is the only process
  started, whatever \<open>BuildCommand\<close> is.  If it does not, the run goes on with the build
  step and the switch on the type.
\<close>

theorem C2_change_detection:
  assumes "os_stat h (Path p) w = (r, w1)" and "r \<noteq> NotExist"
    and "os_exec h (git_pull_argv p) [] w1 = ((output, None), w2)"
  shows "updateProject h p (w, tr) =
           (if Contains output ''Already up to date.''
            then (w2, tr @ [Stat (Path p),
                            Out (arrow @ '' Pulling latest changes for '' @ Name p @ nl),
                            Spawn (git_pull_argv p) [] Captured,
                            Out output,
                            Out (''No new commits for '' @ Name p @ nl)])
            else dispatch h p (build_step h p
                   (w2, tr @ [Stat (Path p),
                              Out (arrow @ '' Pulling latest changes for '' @ Name p @ nl),
                              Spawn (git_pull_argv p) [] Captured,
                              Out output])))
         \<and> spawns (added tr (updateProject h p (w, tr))) =
             (if Contains output ''Already up to date.''
              then [(git_pull_argv p, [], Captured)]
              else [(git_pull_argv p, [], Captured)]
                   @ (if BuildCommand p = [] then []
                      else [(shell_argv h (BuildCommand p), Path p, Inherited)])
                   @ (if Type p = ''pm2''
                      then [([''pm2'', ''restart'', Name p], [], Inherited)] else []))"
proof (cases "Contains output ''Already up to date.''")
  case True
  with assms show ?thesis
    by (simp add: pull_ok added_def)
next
  case False
  with assms show ?thesis
    by (simp add: pull_ok changed_spawns)
qed

theorem C2_change_detection_witness:
  "updateProject (demo_host StatOk up_to_date quiet_ok quiet_ok) web (0, []) =
     (1, [Stat ''/srv/site'',
          Out (arrow @ '' Pulling latest changes for web'' @ nl),
          Spawn [''git'', ''-C'', ''/srv/site'', ''pull''] [] Captured,
          Out (''Already up to date.'' @ nl),
          Out (''No new commits for web'' @ nl)])
   \<and> updateProject (demo_host StatOk changed quiet_ok quiet_ok) web (0, []) =
     (3, [Stat ''/srv/site'',
          Out (arrow @ '' Pulling latest changes for web'' @ nl),
          Spawn [''git'', ''-C'', ''/srv/site'', ''pull''] [] Captured,
          Out (''Updating 1a2b3c4..5d6e7f8'' @ nl),
          Out (arrow @ '' Running build command for web'' @ nl),
          Spawn [''bash'', ''-c'', ''npm run build''] ''/srv/site'' Inherited,
          ChildOut '''',
          Out (arrow @ '' Restarting PM2 process: web'' @ nl),
          Spawn [''pm2'', ''restart'', ''web''] [] Inherited,
          ChildOut ''''])
   \<and> spawns (added [] (updateProject (demo_host StatOk up_to_date quiet_ok quiet_ok) web (0, []))) =
       [([''git'', ''-C'', ''/srv/site'', ''pull''], [], Captured)]
   \<and> spawns (added [] (updateProject (demo_host StatOk changed quiet_ok quiet_ok) web (0, []))) =
       [([''git'', ''-C'', ''/srv/site'', ''pull''], [], Captured),
        ([''bash'', ''-c'', ''npm run build''], ''/srv/site'', Inherited),
        ([''pm2'', ''restart'', ''web''], [], Inherited)]"
  using C2_change_detection [of "demo_host StatOk up_to_date quiet_ok quiet_ok" web 0 StatOk 0
                                "''Already up to date.'' @ nl" 1 "[]"]
        C2_change_detection [of "demo_host StatOk changed quiet_ok quiet_ok" web 0 StatOk 0
                                "''Updating 1a2b3c4..5d6e7f8'' @ nl" 1 "[]"]
  by (simp add: sample_defs build_step_eq dispatch_eq added_def numeral_3_eq_3)

subsection \<open>C3: a missing path\<close>

text \<open>
  C3, as the code has it.  The test of line 237 is \<open>os.IsNotExist\<close> on the error of
  \<open>os.Stat\<close>.  When it holds, \<open>updateProject\<close> writes the line
  \<open>Path not found: <path>\<close> and returns: it calls for no process (no git, no build
  command, no pm2) and writes nothing else.  On any other answer of \<open>os.Stat\<close>, an
  error other than \<open>ENOENT\<close> among them, the run goes on: it announces the pull and
  calls \<open>git -C <path> pull\<close>.
\<close>

theorem C3_path_missing:
  "(os_stat h (Path p) w = (NotExist, w') \<longrightarrow>
      updateProject h p (w, tr) =
        (w', tr @ [Stat (Path p), Out (''Path not found: '' @ Path p @ nl)])
      \<and> spawns (added tr (updateProject h p (w, tr))) = [])
   \<and> (os_stat h (Path p) w = (r, w1) \<and> r \<noteq> NotExist \<longrightarrow>
      take 3 (added tr (updateProject h p (w, tr))) =
        [Stat (Path p),
         Out (arrow @ '' Pulling latest changes for '' @ Name p @ nl),
         Spawn [''git'', ''-C'', Path p, ''pull''] [] Captured])"
proof (intro conjI impI)
  assume "os_stat h (Path p) w = (NotExist, w')"
  then show "updateProject h p (w, tr) =
               (w', tr @ [Stat (Path p), Out (''Path not found: '' @ Path p @ nl)])"
    by (simp add: updateProject_def os_Stat_def Println_def Print_def)
next
  assume "os_stat h (Path p) w = (NotExist, w')"
  then show "spawns (added tr (updateProject h p (w, tr))) = []"
    by (simp add: updateProject_def os_Stat_def Println_def Print_def added_def)
next
  assume "os_stat h (Path p) w = (r, w1) \<and> r \<noteq> NotExist"
  then show "take 3 (added tr (updateProject h p (w, tr))) =
               [Stat (Path p),
                Out (arrow @ '' Pulling latest changes for '' @ Name p @ nl),
                Spawn [''git'', ''-C'', Path p, ''pull''] [] Captured]"
    by (simp add: updateProject_events)
qed

theorem C3_path_missing_witness:
  "os_stat (demo_host NotExist changed quiet_ok quiet_ok) (Path web) 0 = (NotExist, 0)
   \<and> updateProject (demo_host NotExist changed quiet_ok quiet_ok) web (0, []) =
       (0, [Stat ''/srv/site'', Out (''Path not found: /srv/site'' @ nl)])
   \<and> spawns (added [] (updateProject (demo_host NotExist changed quiet_ok quiet_ok)
                         web (0, []))) = []
   \<and> os_stat (demo_host StatOk changed quiet_ok quiet_ok) (Path web) 0 = (StatOk, 0)
   \<and> StatOk \<noteq> NotExist
   \<and> take 3 (added [] (updateProject (demo_host StatOk changed quiet_ok quiet_ok) web (0, []))) =
       [Stat ''/srv/site'',
        Out (arrow @ '' Pulling latest changes for web'' @ nl),
        Spawn [''git'', ''-C'', ''/srv/site'', ''pull''] [] Captured]"
  using C3_path_missing [of "demo_host NotExist changed quiet_ok quiet_ok" web 0 0 "[]"]
        C3_path_missing [of "demo_host StatOk changed quiet_ok quiet_ok" web 0 _ "[]" StatOk 0]
  by (simp add: sample_defs added_def)

text \<open>
  C3 as stated fails.  The path \<open>/srv/site/index.html/app\<close> lies under a regular
  file: it does not exist, and \<open>os.Stat\<close> returns \<open>ENOTDIR\<close>, for which
  \<open>os.IsNotExist\<close> does not hold.  The run does not write \<open>Path not found\<close>; it calls
  \<open>git -C /srv/site/index.html/app pull\<close> and reports the failure of the pull.
\<close>

theorem C3_absent_path_is_pulled:
  "path_absent (fst (os_stat (demo_host NotDir not_a_dir quiet_ok quiet_ok) (Path nested) 0))
   \<and> snd (updateProject (demo_host NotDir not_a_dir quiet_ok quiet_ok) nested (0, [])) =
       [Stat ''/srv/site/index.html/app'',
        Out (arrow @ '' Pulling latest changes for nested'' @ nl),
        Spawn [''git'', ''-C'', ''/srv/site/index.html/app'', ''pull''] [] Captured,
        Out (''Git pull failed: exit status 128'' @ nl)]
   \<and> spawns (added [] (updateProject (demo_host NotDir not_a_dir quiet_ok quiet_ok) nested
                         (0, []))) =
       [([''git'', ''-C'', ''/srv/site/index.html/app'', ''pull''], [], Captured)]
   \<and> spawns (added [] (updateProject (demo_host NotDir not_a_dir quiet_ok quiet_ok) nested
                         (0, []))) \<noteq> []"
  by (simp add: sample_defs more_sample_defs path_absent_def updateProject_def os_Stat_def
        CombinedOutput_def Println_def Print_def added_def)

subsection \<open>C4: the build step\<close>

text \<open>
  C4.  In a run whose pull returns no error and an output without the marker: if
  \<open>BuildCommand\<close> is not empty, the program calls once for \<open>bash -c <BuildCommand>\<close>
  (on Windows, \<open>cmd /C <BuildCommand>\<close>), the command string as it is configured, with
  \<open>Path\<close> as its directory, and the switch on the type follows whatever error the
  build returns; if \<open>BuildCommand\<close> is empty, no build is called for and the switch
  follows the pull at once.  The processes of the run are git, then the build if
  there is one, then pm2 if the type is \<open>pm2\<close>.
\<close>

theorem C4_build_executor:
  assumes "os_stat h (Path p) w = (r, w1)" and "r \<noteq> NotExist"
    and "os_exec h [''git'', ''-C'', Path p, ''pull''] [] w1 = ((output, None), w2)"
    and "\<not> Contains output ''Already up to date.''"
  shows "updateProject h p (w, tr) =
           (if BuildCommand p = []
            then dispatch h p
                   (w2, tr @ [Stat (Path p),
                              Out (arrow @ '' Pulling latest changes for '' @ Name p @ nl),
                              Spawn [''git'', ''-C'', Path p, ''pull''] [] Captured,
                              Out output])
            else (case os_exec h (if GOOS h = ''windows''
                                  then [''cmd'', ''/C'', BuildCommand p]
                                  else [''bash'', ''-c'', BuildCommand p]) (Path p) w2 of
                    ((build_output, build_err), w3) \<Rightarrow>
                      dispatch h p
                        (w3, tr @ [Stat (Path p),
                                   Out (arrow @ '' Pulling latest changes for '' @ Name p @ nl),
                                   Spawn [''git'', ''-C'', Path p, ''pull''] [] Captured,
                                   Out output,
                                   Out (arrow @ '' Running build command for '' @ Name p @ nl),
                                   Spawn (if GOOS h = ''windows''
                                          then [''cmd'', ''/C'', BuildCommand p]
                                          else [''bash'', ''-c'', BuildCommand p])
                                         (Path p) Inherited,
                                   ChildOut build_output])))
         \<and> spawns (added tr (updateProject h p (w, tr))) =
             [([''git'', ''-C'', Path p, ''pull''], [], Captured)]
             @ (if BuildCommand p = [] then []
                else [(if GOOS h = ''windows''
                       then [''cmd'', ''/C'', BuildCommand p]
                       else [''bash'', ''-c'', BuildCommand p], Path p, Inherited)])
             @ (if Type p = ''pm2'' then [([''pm2'', ''restart'', Name p], [], Inherited)]
                else [])"
proof -
  let ?pre = "[Stat (Path p),
               Out (arrow @ '' Pulling latest changes for '' @ Name p @ nl),
               Spawn [''git'', ''-C'', Path p, ''pull''] [] Captured,
               Out output]"
  from assms(3)
  have git: "os_exec h (git_pull_argv p) [] w1 = ((output, None), w2)"
    by (simp add: git_pull_argv_def)
  have run: "updateProject h p (w, tr) = dispatch h p (build_step h p (w2, tr @ ?pre))"
    using assms(1,2,4) git by (simp add: pull_ok) (simp add: git_pull_argv_def)
  have procs: "spawns (added tr (updateProject h p (w, tr))) =
                 [([''git'', ''-C'', Path p, ''pull''], [], Captured)]
                 @ (if BuildCommand p = [] then []
                    else [(if GOOS h = ''windows''
                           then [''cmd'', ''/C'', BuildCommand p]
                           else [''bash'', ''-c'', BuildCommand p], Path p, Inherited)])
                 @ (if Type p = ''pm2'' then [([''pm2'', ''restart'', Name p], [], Inherited)]
                    else [])"
    by (simp add: run changed_spawns shell_argv_def)
  have "updateProject h p (w, tr) =
           (if BuildCommand p = []
            then dispatch h p (w2, tr @ ?pre)
            else (case os_exec h (if GOOS h = ''windows''
                                  then [''cmd'', ''/C'', BuildCommand p]
                                  else [''bash'', ''-c'', BuildCommand p]) (Path p) w2 of
                    ((build_output, build_err), w3) \<Rightarrow>
                      dispatch h p
                        (w3, tr @ ?pre @
                                  [Out (arrow @ '' Running build command for '' @ Name p @ nl),
                                   Spawn (if GOOS h = ''windows''
                                          then [''cmd'', ''/C'', BuildCommand p]
                                          else [''bash'', ''-c'', BuildCommand p])
                                         (Path p) Inherited,
                                   ChildOut build_output])))"
    by (simp add: run build_step_eq shell_argv_def split: prod.splits)
  with procs show ?thesis
    by simp
qed

theorem C4_build_executor_witness:
  "updateProject (demo_host StatOk changed quiet_fail quiet_ok) web (0, []) =
     (3, [Stat ''/srv/site'',
          Out (arrow @ '' Pulling latest changes for web'' @ nl),
          Spawn [''git'', ''-C'', ''/srv/site'', ''pull''] [] Captured,
          Out (''Updating 1a2b3c4..5d6e7f8'' @ nl),
          Out (arrow @ '' Running build command for web'' @ nl),
          Spawn [''bash'', ''-c'', ''npm run build''] ''/srv/site'' Inherited,
          ChildOut [],
          Out (arrow @ '' Restarting PM2 process: web'' @ nl),
          Spawn [''pm2'', ''restart'', ''web''] [] Inherited,
          ChildOut []])
   \<and> spawns (added [] (updateProject (demo_host StatOk changed quiet_fail quiet_ok) web (0, []))) =
       [([''git'', ''-C'', ''/srv/site'', ''pull''], [], Captured),
        ([''bash'', ''-c'', ''npm run build''], ''/srv/site'', Inherited),
        ([''pm2'', ''restart'', ''web''], [], Inherited)]
   \<and> updateProject (demo_host StatOk changed quiet_ok quiet_ok) docs (0, []) =
     (1, [Stat ''/srv/docs'',
          Out (arrow @ '' Pulling latest changes for docs'' @ nl),
          Spawn [''git'', ''-C'', ''/srv/docs'', ''pull''] [] Captured,
          Out (''Updating 1a2b3c4..5d6e7f8'' @ nl)])
   \<and> spawns (added [] (updateProject (demo_host StatOk changed quiet_ok quiet_ok) docs (0, []))) =
       [([''git'', ''-C'', ''/srv/docs'', ''pull''], [], Captured)]
   \<and> spawns (added [] (updateProject (win_host StatOk changed quiet_ok quiet_ok)
                         (docs\<lparr>Path := ''C:/srv/docs'', BuildCommand := ''hugo --minify''\<rparr>)
                         (0, []))) =
       [([''git'', ''-C'', ''C:/srv/docs'', ''pull''], [], Captured),
        ([''cmd'', ''/C'', ''hugo --minify''], ''C:/srv/docs'', Inherited)]"
  using C4_build_executor [of "demo_host StatOk changed quiet_fail quiet_ok" web 0 StatOk 0
                              "''Updating 1a2b3c4..5d6e7f8'' @ nl" 1 "[]"]
        C4_build_executor [of "demo_host StatOk changed quiet_ok quiet_ok" docs 0 StatOk 0
                              "''Updating 1a2b3c4..5d6e7f8'' @ nl" 1 "[]"]
        C4_build_executor [of "win_host StatOk changed quiet_ok quiet_ok"
                              "docs\<lparr>Path := ''C:/srv/docs'', BuildCommand := ''hugo --minify''\<rparr>"
                              0 StatOk 0 "''Updating 1a2b3c4..5d6e7f8'' @ nl" 1 "[]"]
  by (simp add: sample_defs more_sample_defs dispatch_eq added_def numeral_3_eq_3)

subsection \<open>C5: a failed pull\<close>

text \<open>
  C5, as the code has it.  When the pull returns an error, \<open>updateProject\<close> writes
  \<open>Git pull failed: <error>\<close> and returns: nothing is raised, git is the only process
  started, there is no build and no switch on the type.  The line carries the error
  and not the output of the command: the result does not depend on \<open>output\<close>.
\<close>

theorem C5_pull_failure:
  assumes "os_stat h (Path p) w = (r, w1)" and "r \<noteq> NotExist"
    and "os_exec h (git_pull_argv p) [] w1 = ((output, Some e), w2)"
  shows "updateProject h p (w, tr) =
           (w2, tr @ [Stat (Path p),
                      Out (arrow @ '' Pulling latest changes for '' @ Name p @ nl),
                      Spawn (git_pull_argv p) [] Captured,
                      Out (''Git pull failed: '' @ e @ nl)])
         \<and> spawns (added tr (updateProject h p (w, tr))) = [(git_pull_argv p, [], Captured)]"
  using assms
  by (simp add: updateProject_def os_Stat_def CombinedOutput_def Println_def Print_def added_def)

theorem C5_pull_failure_witness:
  "updateProject (demo_host StatOk no_repo quiet_ok quiet_ok) web (0, []) =
     (1, [Stat ''/srv/site'',
          Out (arrow @ '' Pulling latest changes for web'' @ nl),
          Spawn [''git'', ''-C'', ''/srv/site'', ''pull''] [] Captured,
          Out (''Git pull failed: exit status 128'' @ nl)])
   \<and> spawns (added [] (updateProject (demo_host StatOk no_repo quiet_ok quiet_ok) web (0, []))) =
       [([''git'', ''-C'', ''/srv/site'', ''pull''], [], Captured)]"
  using C5_pull_failure [of "demo_host StatOk no_repo quiet_ok quiet_ok" web 0 StatOk 0
                            "''fatal: not a git repository'' @ nl" "''exit status 128''" 1 "[]"]
  by (simp add: sample_defs added_def)

text \<open>
  C5 as stated fails: the combined output is not attached to what the run reports.
  Here the pull writes \<open>fatal: not a git repository\<close> and returns
  \<open>exit status 128\<close>; the console gets the error alone.
\<close>

theorem C5_output_dropped:
  "fst (os_exec (demo_host StatOk no_repo quiet_ok quiet_ok) (git_pull_argv web) [] 0) =
     (''fatal: not a git repository'' @ nl, Some ''exit status 128'')
   \<and> snd (updateProject (demo_host StatOk no_repo quiet_ok quiet_ok) web (0, [])) =
       [Stat ''/srv/site'',
        Out (arrow @ '' Pulling latest changes for web'' @ nl),
        Spawn [''git'', ''-C'', ''/srv/site'', ''pull''] [] Captured,
        Out (''Git pull failed: exit status 128'' @ nl)]
   \<and> \<not> mentions ''fatal: not a git repository''
         (snd (updateProject (demo_host StatOk no_repo quiet_ok quiet_ok) web (0, [])))"
  by (simp add: sample_defs updateProject_def os_Stat_def CombinedOutput_def
        Println_def Print_def)

subsection \<open>C6: the interval\<close>

text \<open>
  C6, as the code has it.  The loop sleeps after every pass, for the configured
  interval: the next pass starts that long after the end of the pass before it, however
  long that pass took.  From start to start, the time is the length of the pass plus the
  interval.  Passes do not overlap.  For 0 to 153722867 minutes the sleep is that many
  minutes.  (\<open>time.Sleep\<close> may take longer than asked; here it takes what is asked.)
\<close>

theorem C6_sleep_after_pass:
  "snd (watch_loop h config (Suc k) s) =
     snd (pass h (Projects config) (watch_loop h config k s)) @ [Sleep (interval_duration config)]
   \<and> pass_start cost h config s (Suc k) =
     pass_end cost h config s k + sleep_ns (interval_duration config)
   \<and> (0 \<le> sint (IntervalMinutes config) \<and> sint (IntervalMinutes config) \<le> 153722867 \<longrightarrow>
        int (sleep_ns (interval_duration config)) = sint (IntervalMinutes config) * 60000000000)"
proof (intro conjI)
  show "snd (watch_loop h config (Suc k) s) =
          snd (pass h (Projects config) (watch_loop h config k s))
          @ [Sleep (interval_duration config)]"
    unfolding watch_loop_Suc_right by (simp add: watch_body_def time_Sleep_def)
next
  show "pass_start cost h config s (Suc k) =
          pass_end cost h config s k + sleep_ns (interval_duration config)"
    unfolding pass_start_def pass_end_def watch_loop_Suc_right
    by (simp add: watch_body_def time_Sleep_def elapsed_append) (simp add: elapsed_def)
next
  show "0 \<le> sint (IntervalMinutes config) \<and> sint (IntervalMinutes config) \<le> 153722867 \<longrightarrow>
        int (sleep_ns (interval_duration config)) = sint (IntervalMinutes config) * 60000000000"
    by (auto simp: sleep_ns_def interval_duration_def interval_in_range)
qed

text \<open>With a pull of one minute and an interval of ten: eleven minutes from start to start.\<close>

theorem C6_sleep_after_pass_witness:
  "(0 \<le> sint (IntervalMinutes every_ten) \<and> sint (IntervalMinutes every_ten) \<le> 153722867)
   \<and> pass_end (spawn_cost 60000000000) (demo_host StatOk up_to_date quiet_ok quiet_ok)
       every_ten (0, []) 0 = 60000000000
   \<and> sleep_ns (interval_duration every_ten) = 600000000000
   \<and> pass_start (spawn_cost 60000000000) (demo_host StatOk up_to_date quiet_ok quiet_ok)
       every_ten (0, []) (Suc 0) = 660000000000"
  using C6_sleep_after_pass [where cost = "spawn_cost 60000000000"
          and h = "demo_host StatOk up_to_date quiet_ok quiet_ok" and config = every_ten
          and s = "(0, [])" and k = 0]
  by (simp add: every_ten_def pass_end_def sample_defs updateProject_def os_Stat_def
        CombinedOutput_def Println_def Print_def elapsed_def)

text \<open>
  C6 as stated fails.  It says that pass \<open>k + 1\<close> starts at the later of the
  start of pass \<open>k\<close> plus the interval, and the end of pass \<open>k\<close>.  With an interval of
  ten minutes and a pull of one minute, the second pass starts after eleven minutes,
  not ten.  With a pull of twenty minutes, it starts after thirty, not twenty.
\<close>

theorem C6_not_start_to_start:
  "snd (watch_loop (demo_host StatOk up_to_date quiet_ok quiet_ok) every_ten 1 (0, [])) =
     [Out (''Checking web'' @ nl),
      Stat ''/srv/site'',
      Out (arrow @ '' Pulling latest changes for web'' @ nl),
      Spawn [''git'', ''-C'', ''/srv/site'', ''pull''] [] Captured,
      Out (''Already up to date.'' @ nl),
      Out (''No new commits for web'' @ nl),
      Sleep 600000000000]
   \<and> pass_start (spawn_cost 60000000000) (demo_host StatOk up_to_date quiet_ok quiet_ok)
     every_ten (0, []) 0 = 0
   \<and> pass_end (spawn_cost 60000000000) (demo_host StatOk up_to_date quiet_ok quiet_ok)
     every_ten (0, []) 0 = 60000000000
   \<and> pass_start (spawn_cost 60000000000) (demo_host StatOk up_to_date quiet_ok quiet_ok)
     every_ten (0, []) 1 = 660000000000
   \<and> pass_start (spawn_cost 60000000000) (demo_host StatOk up_to_date quiet_ok quiet_ok)
     every_ten (0, []) 1 \<noteq>
       max (pass_start (spawn_cost 60000000000) (demo_host StatOk up_to_date quiet_ok quiet_ok)
              every_ten (0, []) 0 + 600000000000)
           (pass_end (spawn_cost 60000000000) (demo_host StatOk up_to_date quiet_ok quiet_ok)
              every_ten (0, []) 0)
   \<and> pass_end (spawn_cost 1200000000000) (demo_host StatOk up_to_date quiet_ok quiet_ok)
     every_ten (0, []) 0 = 1200000000000
   \<and> pass_start (spawn_cost 1200000000000) (demo_host StatOk up_to_date quiet_ok quiet_ok)
     every_ten (0, []) 1 = 1800000000000
   \<and> pass_start (spawn_cost 1200000000000) (demo_host StatOk up_to_date quiet_ok quiet_ok)
     every_ten (0, []) 1 \<noteq>
       max (pass_start (spawn_cost 1200000000000) (demo_host StatOk up_to_date quiet_ok quiet_ok)
              every_ten (0, []) 0 + 600000000000)
           (pass_end (spawn_cost 1200000000000) (demo_host StatOk up_to_date quiet_ok quiet_ok)
              every_ten (0, []) 0)"
  by (simp add: every_ten_def pass_start_def pass_end_def watch_body_def time_Sleep_def
        interval_duration_def sleep_ns_def sample_defs updateProject_def os_Stat_def
        CombinedOutput_def Println_def Print_def elapsed_def)

subsection \<open>C7: entries with the same name\<close>

text \<open>
  C7, as the code has it.  The \<open>build\<close> command is the one place where a project is
  chosen by its name, and there the first entry with the name wins: an entry that no
  entry of the same name precedes is the one built, whatever follows it.  A pass of
  \<open>watch\<close> does not choose by name: every entry is reconciled, at its place in the
  order of the configuration, entries with the same name each in their turn.
\<close>

theorem C7_first_match_wins:
  assumes "\<forall>q \<in> set xs. Name q \<noteq> Name p"
  shows "buildCmd h \<lparr>IntervalMinutes = i, Projects = xs @ p # ys\<rparr> (Name p) s =
           buildCmd h \<lparr>IntervalMinutes = i, Projects = [p]\<rparr> (Name p) s
         \<and> pass h (xs @ p # ys) s =
             pass h ys (updateProject h p (Println ''Checking'' (Name p) (pass h xs s)))"
  using assms by (simp add: buildCmd_def buildCmd_loop_skip pass_append)

theorem C7_first_match_wins_witness:
  "spawns (added [] (buildCmd (demo_host StatOk changed quiet_ok quiet_ok)
      \<lparr>IntervalMinutes = 10,
       Projects = [docs, web, web\<lparr>Path := ''/srv/other'', BuildCommand := ''make two''\<rparr>]\<rparr>
      ''web'' (0, []))) =
     [([''bash'', ''-c'', ''npm run build''], ''/srv/site'', Inherited)]
   \<and> stats (added [] (pass (demo_host NotExist changed quiet_ok quiet_ok)
       [docs, web, web\<lparr>Path := ''/srv/other'', BuildCommand := ''make two''\<rparr>] (0, []))) =
     [''/srv/docs'', ''/srv/site'', ''/srv/other'']"
  using C7_first_match_wins [of "[docs]" web "demo_host StatOk changed quiet_ok quiet_ok" 10
          "[web\<lparr>Path := ''/srv/other'', BuildCommand := ''make two''\<rparr>]" "(0, [])"]
        C7_first_match_wins [of "[docs]" web "demo_host NotExist changed quiet_ok quiet_ok" 10
          "[web\<lparr>Path := ''/srv/other'', BuildCommand := ''make two''\<rparr>]" "(0, [])"]
  by (simp add: sample_defs buildCmd_def runBuildCommand_def Run_def Print_def Println_def
        added_def updateProject_def os_Stat_def)

text \<open>
  C7 as stated fails.  With two entries named \<open>web\<close>, \<open>build web\<close> runs the build
  command of the first, in the path of the first, and not that of the last; and a pass
  reconciles both.
\<close>

theorem C7_last_match_does_not_win:
  "Name (last (Projects dup_config)) = ''web''
   \<and> spawns (added [] (buildCmd (demo_host StatOk changed quiet_ok quiet_ok) dup_config ''web''
                         (0, [])))
     = [([''bash'', ''-c'', ''npm run build''], ''/srv/site'', Inherited)]
   \<and> spawns (added [] (buildCmd (demo_host StatOk changed quiet_ok quiet_ok) dup_config ''web''
                         (0, [])))
     \<noteq> [([''bash'', ''-c'', BuildCommand (last (Projects dup_config))],
          Path (last (Projects dup_config)), Inherited)]
   \<and> stats (added [] (pass (demo_host NotExist changed quiet_ok quiet_ok) (Projects dup_config)
                        (0, [])))
     = [''/srv/site'', ''/srv/other'']"
  by (simp add: sample_defs dup_config_def buildCmd_def runBuildCommand_def Run_def Print_def
        Println_def added_def updateProject_def os_Stat_def)

subsection \<open>C8: what is written to the console\<close>

text \<open>
  C8, as the code has it.  These are all the events of a run of \<open>updateProject\<close>
  in their order, and the texts it writes among them.
  A missing path, a failed pull, an unchanged project and an unknown type each get
  a line of their own: \<open>Path not found: <path>\<close>, \<open>Git pull failed: <error>\<close>,
  \<open>No new commits for <name>\<close>, \<open>Unknown type: <type>\<close>.  After the path check
  every run announces the pull before it calls git, and a changed project has its
  build and its pm2 restart announced, each with the name of the project, before the
  call of the process.  No line is written once an update is done, nor on what the
  restart returned.
\<close>

theorem C8_console_lines:
  "added tr (updateProject h p (w, tr)) =
     (case os_stat h (Path p) w of
        (r, w1) \<Rightarrow>
          if r = NotExist
          then [Stat (Path p), Out (''Path not found: '' @ Path p @ nl)]
          else [Stat (Path p),
                Out (arrow @ '' Pulling latest changes for '' @ Name p @ nl),
                Spawn [''git'', ''-C'', Path p, ''pull''] [] Captured] @
            (case os_exec h [''git'', ''-C'', Path p, ''pull''] [] w1 of
               ((output, err), w2) \<Rightarrow>
                 (case err of
                    Some e \<Rightarrow> [Out (''Git pull failed: '' @ e @ nl)]
                  | None \<Rightarrow>
                      Out output #
                      (if Contains output ''Already up to date.''
                       then [Out (''No new commits for '' @ Name p @ nl)]
                       else
                         (case (if BuildCommand p = [] then ([], w2)
                                else (case os_exec h
                                             (if GOOS h = ''windows''
                                              then [''cmd'', ''/C'', BuildCommand p]
                                              else [''bash'', ''-c'', BuildCommand p])
                                             (Path p) w2 of
                                        ((build_output, build_err), w3) \<Rightarrow>
                                          ([Out (arrow @ '' Running build command for ''
                                                 @ Name p @ nl),
                                            Spawn (if GOOS h = ''windows''
                                                   then [''cmd'', ''/C'', BuildCommand p]
                                                   else [''bash'', ''-c'', BuildCommand p])
                                                  (Path p) Inherited,
                                            ChildOut build_output], w3))) of
                            (build_events, w3) \<Rightarrow>
                              build_events @
                              (if Type p = ''pm2''
                               then (case os_exec h [''pm2'', ''restart'', Name p] [] w3 of
                                       ((restart_output, restart_err), w4) \<Rightarrow>
                                         [Out (arrow @ '' Restarting PM2 process: ''
                                               @ Name p @ nl),
                                          Spawn [''pm2'', ''restart'', Name p] [] Inherited,
                                          ChildOut restart_output])
                               else if Type p = ''docker'' \<or> Type p = ''static'' then []
                               else [Out (''Unknown type: '' @ Type p @ nl)]))))))   \<and> take (length tr) (snd (updateProject h p (w, tr))) = tr
   \<and> outs (added tr (updateProject h p (w, tr))) =
     (case os_stat h (Path p) w of
        (r, w1) \<Rightarrow>
          if r = NotExist then [''Path not found: '' @ Path p @ nl]
          else (arrow @ '' Pulling latest changes for '' @ Name p @ nl) #
            (case os_exec h [''git'', ''-C'', Path p, ''pull''] [] w1 of
               ((output, err), w2) \<Rightarrow>
                 (case err of
                    Some e \<Rightarrow> [''Git pull failed: '' @ e @ nl]
                  | None \<Rightarrow>
                      output #
                      (if Contains output ''Already up to date.''
                       then [''No new commits for '' @ Name p @ nl]
                       else (if BuildCommand p = [] then []
                             else [arrow @ '' Running build command for '' @ Name p @ nl])
                            @ (if Type p = ''pm2''
                               then [arrow @ '' Restarting PM2 process: '' @ Name p @ nl]
                               else if Type p = ''docker'' \<or> Type p = ''static'' then []
                               else [''Unknown type: '' @ Type p @ nl])))))"
proof (intro conjI)
  show "take (length tr) (snd (updateProject h p (w, tr))) = tr"
    using updateProject_extends [of h p w tr] by auto
next
  show "outs (added tr (updateProject h p (w, tr))) =
     (case os_stat h (Path p) w of
        (r, w1) \<Rightarrow>
          if r = NotExist then [''Path not found: '' @ Path p @ nl]
          else (arrow @ '' Pulling latest changes for '' @ Name p @ nl) #
            (case os_exec h [''git'', ''-C'', Path p, ''pull''] [] w1 of
               ((output, err), w2) \<Rightarrow>
                 (case err of
                    Some e \<Rightarrow> [''Git pull failed: '' @ e @ nl]
                  | None \<Rightarrow>
                      output #
                      (if Contains output ''Already up to date.''
                       then [''No new commits for '' @ Name p @ nl]
                       else (if BuildCommand p = [] then []
                             else [arrow @ '' Running build command for '' @ Name p @ nl])
                            @ (if Type p = ''pm2''
                               then [arrow @ '' Restarting PM2 process: '' @ Name p @ nl]
                               else if Type p = ''docker'' \<or> Type p = ''static'' then []
                               else [''Unknown type: '' @ Type p @ nl])))))"
    by (auto simp add: updateProject_events outs_append split: prod.splits option.splits)
qed (rule updateProject_events)

text \<open>
  With a failing build and a failing restart on Linux, and with a build on Windows:
  each announcement stands before the call it announces.
\<close>

theorem C8_console_lines_witness:
  "added [] (updateProject (demo_host StatOk changed quiet_fail quiet_fail) web (0, [])) =
     [Stat ''/srv/site'',
      Out (arrow @ '' Pulling latest changes for web'' @ nl),
      Spawn [''git'', ''-C'', ''/srv/site'', ''pull''] [] Captured,
      Out (''Updating 1a2b3c4..5d6e7f8'' @ nl),
      Out (arrow @ '' Running build command for web'' @ nl),
      Spawn [''bash'', ''-c'', ''npm run build''] ''/srv/site'' Inherited,
      ChildOut '''',
      Out (arrow @ '' Restarting PM2 process: web'' @ nl),
      Spawn [''pm2'', ''restart'', ''web''] [] Inherited,
      ChildOut '''']
   \<and> outs (added [] (updateProject (demo_host StatOk changed quiet_fail quiet_fail) web (0, []))) =
     [arrow @ '' Pulling latest changes for web'' @ nl,
      ''Updating 1a2b3c4..5d6e7f8'' @ nl,
      arrow @ '' Running build command for web'' @ nl,
      arrow @ '' Restarting PM2 process: web'' @ nl]
   \<and> added [] (updateProject (win_host StatOk changed quiet_ok quiet_ok)
                  (docs\<lparr>Type := ''vm'', BuildCommand := ''hugo --minify''\<rparr>) (0, [])) =
     [Stat ''/srv/docs'',
      Out (arrow @ '' Pulling latest changes for docs'' @ nl),
      Spawn [''git'', ''-C'', ''/srv/docs'', ''pull''] [] Captured,
      Out (''Updating 1a2b3c4..5d6e7f8'' @ nl),
      Out (arrow @ '' Running build command for docs'' @ nl),
      Spawn [''cmd'', ''/C'', ''hugo --minify''] ''/srv/docs'' Inherited,
      ChildOut '''',
      Out (''Unknown type: vm'' @ nl)]"
  using C8_console_lines [of "[]" "demo_host StatOk changed quiet_fail quiet_fail" web 0]
        C8_console_lines [of "[]" "win_host StatOk changed quiet_ok quiet_ok"
                             "docs\<lparr>Type := ''vm'', BuildCommand := ''hugo --minify''\<rparr>" 0]
  by (simp add: sample_defs more_sample_defs)

text \<open>
  C8 as stated fails.  A static project without a build command is updated: the last
  text written is the output of git, and no line tells of the update.  A pm2 restart
  that fails leaves the same texts as one that succeeds.  For a missing path, the line
  names the path and not the project.
\<close>

theorem C8_outcomes_without_a_line:
  "outs (added [] (updateProject (demo_host StatOk changed quiet_ok quiet_ok) docs (0, []))) =
     [arrow @ '' Pulling latest changes for docs'' @ nl, ''Updating 1a2b3c4..5d6e7f8'' @ nl]
   \<and> outs (added [] (updateProject (demo_host StatOk changed quiet_ok quiet_fail) web (0, []))) =
       outs (added [] (updateProject (demo_host StatOk changed quiet_ok quiet_ok) web (0, [])))
   \<and> outs (added [] (updateProject (demo_host NotExist changed quiet_ok quiet_ok) web (0, []))) =
       [''Path not found: /srv/site'' @ nl]
   \<and> \<not> mentions (Name web)
         (added [] (updateProject (demo_host NotExist changed quiet_ok quiet_ok) web (0, [])))"
  by (simp add: sample_defs updateProject_def os_Stat_def CombinedOutput_def build_step_def
        dispatch_def runBuildCommand_def Run_def Println_def Print_def added_def)

subsection \<open>C9: the switch on the type\<close>

text \<open>
  C9, as the code has it.  The switch has a result for every type.  For \<open>pm2\<close> it
  announces the restart and starts \<open>pm2 restart <name>\<close> once, with the streams of
  the program; the error of the restart is dropped, so a failed restart does not stop
  the pass, and the program writes nothing about it.  For \<open>docker\<close> and \<open>static\<close> it
  does nothing.  For any other type it writes \<open>Unknown type: <type>\<close> and starts no
  process.
\<close>

theorem C9_dispatcher:
  "dispatch h p (w, tr) =
     (if Type p = ''pm2''
      then (case os_exec h [''pm2'', ''restart'', Name p] [] w of
              ((output, err), w') \<Rightarrow>
                (w', tr @ [Out (arrow @ '' Restarting PM2 process: '' @ Name p @ nl),
                           Spawn [''pm2'', ''restart'', Name p] [] Inherited,
                           ChildOut output]))
      else if Type p = ''docker'' \<or> Type p = ''static'' then (w, tr)
      else (w, tr @ [Out (''Unknown type: '' @ Type p @ nl)]))
   \<and> spawns (added tr (dispatch h p (w, tr))) =
       (if Type p = ''pm2'' then [([''pm2'', ''restart'', Name p], [], Inherited)] else [])"
  by (simp add: dispatch_eq added_def spawns_append split: prod.splits)

text \<open>
  C9 as stated fails: a failed restart is not logged.  Here \<open>pm2 restart web\<close> returns
  \<open>exit status 1\<close> and writes nothing; the switch leaves the trace of a restart that
  succeeds, and the error is nowhere on the console.
\<close>

theorem C9_restart_failure_not_logged:
  "fst (os_exec (demo_host StatOk changed quiet_ok quiet_fail) [''pm2'', ''restart'', ''web''] [] 0)
     = ('''', Some ''exit status 1'')
   \<and> snd (dispatch (demo_host StatOk changed quiet_ok quiet_fail) web (0, [])) =
       [Out (arrow @ '' Restarting PM2 process: web'' @ nl),
        Spawn [''pm2'', ''restart'', ''web''] [] Inherited,
        ChildOut '''']
   \<and> snd (dispatch (demo_host StatOk changed quiet_ok quiet_fail) web (0, [])) =
       snd (dispatch (demo_host StatOk changed quiet_ok quiet_ok) web (0, []))
   \<and> \<not> mentions ''exit status 1''
         (snd (dispatch (demo_host StatOk changed quiet_ok quiet_fail) web (0, [])))"
  by (simp add: sample_defs dispatch_def Run_def Println_def Print_def)

subsection \<open>C10: the \<open>build\<close> command\<close>

text \<open>
  C10.  For every configuration and every name, the \<open>build\<close> command looks for the
  first entry with the name.  If there is none, it writes
  \<open>Project <name> not found in configuration\<close> and calls for nothing.  If the entry has
  no build command, it writes \<open>No build command configured for project <name>\<close> and
  calls for nothing.  Otherwise it calls for \<open>bash -c <BuildCommand>\<close> (on Windows,
  \<open>cmd /C <BuildCommand>\<close>) in the path of the entry, and writes whether it failed.
  It never calls \<open>os.Stat\<close>, and the build is the only process it ever calls for: no
  git, no pm2.
\<close>

theorem C10_build_command_only:
  "buildCmd h config n (w, tr) =
     (case find (\<lambda>p. Name p = n) (Projects config) of
        None \<Rightarrow> (w, tr @ [Out (''Project '' @ n @ '' not found in configuration'' @ nl)])
      | Some p \<Rightarrow>
          if BuildCommand p = []
          then (w, tr @ [Out (''No build command configured for project '' @ n @ nl)])
          else (case os_exec h (if GOOS h = ''windows''
                                then [''cmd'', ''/C'', BuildCommand p]
                                else [''bash'', ''-c'', BuildCommand p]) (Path p) w of
                  ((output, err), w') \<Rightarrow>
                    (w', tr @ [Out (''Building project '' @ n @ ''...'' @ nl),
                               Spawn (if GOOS h = ''windows''
                                      then [''cmd'', ''/C'', BuildCommand p]
                                      else [''bash'', ''-c'', BuildCommand p])
                                     (Path p) Inherited,
                               ChildOut output,
                               Out (case err of
                                      Some e \<Rightarrow> ''Build failed for '' @ n @ '': '' @ e @ nl
                                    | None \<Rightarrow> ''Build completed for '' @ n @ nl)])))
   \<and> stats (added tr (buildCmd h config n (w, tr))) = []
   \<and> spawns (added tr (buildCmd h config n (w, tr))) =
       (case find (\<lambda>p. Name p = n) (Projects config) of
          None \<Rightarrow> []
        | Some p \<Rightarrow>
            if BuildCommand p = [] then []
            else [(if GOOS h = ''windows''
                   then [''cmd'', ''/C'', BuildCommand p]
                   else [''bash'', ''-c'', BuildCommand p], Path p, Inherited)])"
proof (cases "find (\<lambda>p. Name p = n) (Projects config)")
  case None
  then show ?thesis
    by (simp add: buildCmd_def buildCmd_loop_find [of h n "Projects config"] Print_def added_def)
next
  case (Some p)
  then have name: "Name p = n"
    by (auto simp: find_Some_iff)
  have eq: "buildCmd h config n (w, tr) = buildCmd_loop h n [p] (w, tr)"
    using Some by (simp add: buildCmd_def buildCmd_loop_find [of h n "Projects config"])
  show ?thesis
    unfolding eq buildCmd_loop_one [OF name] Some
    by (simp add: added_def shell_argv_def split: prod.splits)
qed

text \<open>
  On a host where the path does not exist and git and pm2 would answer: a name that
  is not configured, an entry without a build command, a build that fails on Linux,
  a build that succeeds on Windows.
\<close>

theorem C10_build_command_only_witness:
  "buildCmd (demo_host NotExist changed quiet_fail quiet_ok) \<lparr>IntervalMinutes = 10,
       Projects = [docs, web]\<rparr> ''api'' (0, []) =
     (0, [Out (''Project api not found in configuration'' @ nl)])
   \<and> buildCmd (demo_host NotExist changed quiet_fail quiet_ok) \<lparr>IntervalMinutes = 10,
       Projects = [docs, web]\<rparr> ''docs'' (0, []) =
     (0, [Out (''No build command configured for project docs'' @ nl)])
   \<and> buildCmd (demo_host NotExist changed quiet_fail quiet_ok) \<lparr>IntervalMinutes = 10,
       Projects = [docs, web]\<rparr> ''web'' (0, []) =
     (1, [Out (''Building project web...'' @ nl),
          Spawn [''bash'', ''-c'', ''npm run build''] ''/srv/site'' Inherited,
          ChildOut '''',
          Out (''Build failed for web: exit status 1'' @ nl)])
   \<and> spawns (added [] (buildCmd (demo_host NotExist changed quiet_fail quiet_ok)
       \<lparr>IntervalMinutes = 10, Projects = [docs, web]\<rparr> ''web'' (0, []))) =
     [([''bash'', ''-c'', ''npm run build''], ''/srv/site'', Inherited)]
   \<and> buildCmd (win_host NotExist changed quiet_ok quiet_ok) \<lparr>IntervalMinutes = 10,
       Projects = [docs, web]\<rparr> ''web'' (0, []) =
     (1, [Out (''Building project web...'' @ nl),
          Spawn [''cmd'', ''/C'', ''npm run build''] ''/srv/site'' Inherited,
          ChildOut '''',
          Out (''Build completed for web'' @ nl)])
   \<and> stats (added [] (buildCmd (win_host NotExist changed quiet_ok quiet_ok)
       \<lparr>IntervalMinutes = 10, Projects = [docs, web]\<rparr> ''web'' (0, []))) = []"
  using C10_build_command_only [of "demo_host NotExist changed quiet_fail quiet_ok"
          "\<lparr>IntervalMinutes = 10, Projects = [docs, web]\<rparr>" "''api''" 0 "[]"]
        C10_build_command_only [of "demo_host NotExist changed quiet_fail quiet_ok"
          "\<lparr>IntervalMinutes = 10, Projects = [docs, web]\<rparr>" "''docs''" 0 "[]"]
        C10_build_command_only [of "demo_host NotExist changed quiet_fail quiet_ok"
          "\<lparr>IntervalMinutes = 10, Projects = [docs, web]\<rparr>" "''web''" 0 "[]"]
        C10_build_command_only [of "win_host NotExist changed quiet_ok quiet_ok"
          "\<lparr>IntervalMinutes = 10, Projects = [docs, web]\<rparr>" "''web''" 0 "[]"]
  by (simp add: sample_defs more_sample_defs added_def)

end
